theory Spec2Isabelle
  imports Main
begin

text \<open>
  The environment prober (\<open>getLanguageVersion\<close>) and the configuration catalog
  (\<open>getAvailableVersions\<close>, \<open>getLanguageEditors\<close>) of \<open>main.go\<close>, with the
  closure of \<open>main\<close> that stores the result of the probe in the session. The
  functions are translated from the Go source; the library functions they call are
  modelled after the Go standard library.
\<close>

section \<open>Go strings\<close>

text \<open>
  A Go string is a sequence of bytes, so it is modelled as \<^typ>\<open>string\<close> (a list of
  \<^typ>\<open>char\<close>, one per byte). A character beyond ASCII is the bytes of its UTF-8
  encoding, written \<open>CHR 0x..\<close>. The functions of package \<open>strings\<close> that
  \<open>main.go\<close> calls follow, with the names they have in Go.
\<close>

definition HasPrefix :: "string \<Rightarrow> string \<Rightarrow> bool" where
  "HasPrefix s prefix \<longleftrightarrow> length s \<ge> length prefix \<and> take (length prefix) s = prefix"

definition HasSuffix :: "string \<Rightarrow> string \<Rightarrow> bool" where
  "HasSuffix s suffix \<longleftrightarrow>
     length s \<ge> length suffix \<and> drop (length s - length suffix) s = suffix"

definition TrimPrefix :: "string \<Rightarrow> string \<Rightarrow> string" where
  "TrimPrefix s prefix = (if HasPrefix s prefix then drop (length prefix) s else s)"

text \<open>\<open>strings.Index\<close>: the position of the first occurrence, \<open>None\<close> for Go's \<open>-1\<close>.\<close>

fun Index :: "string \<Rightarrow> string \<Rightarrow> nat option" where
  "Index [] substr = (if substr = [] then Some 0 else None)"
| "Index (x # xs) substr =
     (if HasPrefix (x # xs) substr then Some 0 else map_option Suc (Index xs substr))"

lemma Index_bound: "Index s substr = Some m \<Longrightarrow> m + length substr \<le> length s"
  by (induction s arbitrary: m) (auto simp: HasPrefix_def split: if_splits)

text \<open>
  \<open>strings.Split(s, sep)\<close> for a separator that is not empty: the loop of Go's
  \<open>genSplit\<close>, which cuts \<open>s\<close> at the first occurrence of \<open>sep\<close> and goes on with
  the rest, until no occurrence is left. \<open>main.go\<close> only ever passes the separator
  \<open>" "\<close>; for the empty separator Go splits after each UTF-8 sequence, which is
  not modelled: that equation is left without a value.
\<close>

function Split :: "string \<Rightarrow> string \<Rightarrow> string list" where
  "Split s (c # cs) =
     (case Index s (c # cs) of
        None \<Rightarrow> [s]
      | Some m \<Rightarrow> take m s # Split (drop (m + length (c # cs)) s) (c # cs))"
| "Split s [] = undefined"
  by pat_completeness auto
termination
  by (relation "measure (\<lambda>(s, sep). length s)") (auto dest: Index_bound)

declare Split.simps [simp del]

text \<open>
  The code points for which Go's \<open>unicode.IsSpace\<close> holds, each as its UTF-8 encoding:
  tab, line feed, vertical tab, form feed, carriage return, space, U+0085, U+00A0,
  U+1680, U+2000 to U+200A, U+2028, U+2029, U+202F, U+205F and U+3000. Go decodes a
  rune only from its shortest encoding, so the rune at the front (at the end) of a string
  is a space exactly when the string starts (ends) with one of these byte sequences.
\<close>

definition space_runes :: "string list" where
  "space_runes =
     [[CHR 0x09], [CHR 0x0A], [CHR 0x0B], [CHR 0x0C], [CHR 0x0D], [CHR 0x20],
      [CHR 0xC2, CHR 0x85], [CHR 0xC2, CHR 0xA0],
      [CHR 0xE1, CHR 0x9A, CHR 0x80],
      [CHR 0xE2, CHR 0x80, CHR 0x80], [CHR 0xE2, CHR 0x80, CHR 0x81],
      [CHR 0xE2, CHR 0x80, CHR 0x82], [CHR 0xE2, CHR 0x80, CHR 0x83],
      [CHR 0xE2, CHR 0x80, CHR 0x84], [CHR 0xE2, CHR 0x80, CHR 0x85],
      [CHR 0xE2, CHR 0x80, CHR 0x86], [CHR 0xE2, CHR 0x80, CHR 0x87],
      [CHR 0xE2, CHR 0x80, CHR 0x88], [CHR 0xE2, CHR 0x80, CHR 0x89],
      [CHR 0xE2, CHR 0x80, CHR 0x8A],
      [CHR 0xE2, CHR 0x80, CHR 0xA8], [CHR 0xE2, CHR 0x80, CHR 0xA9],
      [CHR 0xE2, CHR 0x80, CHR 0xAF], [CHR 0xE2, CHR 0x81, CHR 0x9F],
      [CHR 0xE3, CHR 0x80, CHR 0x80]]"

definition leading_space :: "string \<Rightarrow> string option" where
  "leading_space s = find (HasPrefix s) space_runes"

definition trailing_space :: "string \<Rightarrow> string option" where
  "trailing_space s = find (HasSuffix s) space_runes"

lemma find_Some_member: "find P xs = Some x \<Longrightarrow> x \<in> set xs \<and> P x"
  by (induction xs) (auto split: if_splits)

lemma space_runes_nonempty: "p \<in> set space_runes \<Longrightarrow> p \<noteq> []"
  by (auto simp: space_runes_def)

lemma leading_space_length:
  assumes "leading_space s = Some p"
  shows "0 < length p \<and> length p \<le> length s"
proof -
  from assms have "p \<in> set space_runes" and "HasPrefix s p"
    unfolding leading_space_def by (auto dest: find_Some_member)
  then show ?thesis
    using space_runes_nonempty [of p] by (simp add: HasPrefix_def)
qed

lemma trailing_space_length:
  assumes "trailing_space s = Some p"
  shows "0 < length p \<and> length p \<le> length s"
proof -
  from assms have "p \<in> set space_runes" and "HasSuffix s p"
    unfolding trailing_space_def by (auto dest: find_Some_member)
  then show ?thesis
    using space_runes_nonempty [of p] by (simp add: HasSuffix_def)
qed

text \<open>
  \<open>strings.TrimSpace\<close> is \<open>TrimFunc(s, unicode.IsSpace)\<close>: space runes are dropped
  from the front first, then from the end of what is left.
\<close>

function TrimLeftSpace :: "string \<Rightarrow> string" where
  "TrimLeftSpace s =
     (case leading_space s of
        None \<Rightarrow> s
      | Some p \<Rightarrow> TrimLeftSpace (drop (length p) s))"
  by pat_completeness auto
termination
proof (relation "measure length")
  fix s p
  assume "leading_space s = Some p"
  then have "0 < length p \<and> length p \<le> length s"
    by (rule leading_space_length)
  then show "(drop (length p) s, s) \<in> measure length"
    by (cases p) auto
qed simp

function TrimRightSpace :: "string \<Rightarrow> string" where
  "TrimRightSpace s =
     (case trailing_space s of
        None \<Rightarrow> s
      | Some p \<Rightarrow> TrimRightSpace (take (length s - length p) s))"
  by pat_completeness auto
termination
proof (relation "measure length")
  fix s p
  assume "trailing_space s = Some p"
  then have "0 < length p \<and> length p \<le> length s"
    by (rule trailing_space_length)
  then show "(take (length s - length p) s, s) \<in> measure length"
    by (cases p) auto
qed simp

declare TrimLeftSpace.simps [simp del] TrimRightSpace.simps [simp del]

definition TrimSpace :: "string \<Rightarrow> string" where
  "TrimSpace s = TrimRightSpace (TrimLeftSpace s)"

section \<open>Panics, blocking and slice indexing\<close>

text \<open>
  A Go function call either returns, or panics, or never comes back (here: the child
  process that \<open>cmd.Run\<close> waits for never exits; no timeout is set). Indexing a slice
  out of range panics.
\<close>

datatype panic = IndexOutOfRange nat nat

datatype 'a outcome = Panic panic | Blocked | Return 'a

definition index :: "'a list \<Rightarrow> nat \<Rightarrow> 'a outcome" where
  "index xs i = (if i < length xs then Return (xs ! i) else Panic (IndexOutOfRange i (length xs)))"

section \<open>Package \<open>os/exec\<close> and the machine the program runs on\<close>

text \<open>
  The machine is a record: what \<open>exec.LookPath\<close> answers for a file name (a path
  and Go's error, \<open>None\<close> for \<open>nil\<close>), what running a resolved command does (it
  never exits, or it exits with its captured standard output and the error \<open>Run\<close>
  reports), and the list of child processes started so far, oldest first.
\<close>

datatype run_result = NeverExits | Exits string "string option"

record world =
  LookPath_of :: "string \<Rightarrow> string \<times> string option"
  Run_of :: "string \<Rightarrow> string list \<Rightarrow> run_result"
  started :: "(string \<times> string list) list"

record Cmd =
  cmd_Path :: string
  cmd_Args :: "string list"
  cmd_Err :: "string option"

definition LookPath :: "world \<Rightarrow> string \<Rightarrow> string \<times> string option" where
  "LookPath w file = LookPath_of w file"

text \<open>
  \<open>exec.Command(name, arg...)\<close> for a name without a path separator (all five names
  of \<open>main.go\<close> are such): \<open>Path\<close> is the name resolved by \<open>LookPath\<close> when that
  gives a path, the name itself otherwise, and the error of the lookup is kept in
  \<open>Err\<close>.
\<close>

definition Command :: "world \<Rightarrow> string \<Rightarrow> string list \<Rightarrow> Cmd" where
  "Command w name arg =
     (let (lp, err) = LookPath w name in
      \<lparr>cmd_Path = (if lp \<noteq> '''' then lp else name), cmd_Args = name # arg, cmd_Err = err\<rparr>)"

text \<open>
  \<open>cmd.Run()\<close> with standard output captured: a command whose \<open>Err\<close> is set returns
  that error and starts nothing; otherwise the child process is started (and recorded)
  and waited for.
\<close>

definition Run :: "world \<Rightarrow> Cmd \<Rightarrow> run_result \<times> world" where
  "Run w c =
     (case cmd_Err c of
        Some e \<Rightarrow> (Exits '''' (Some e), w)
      | None \<Rightarrow>
          (Run_of w (cmd_Path c) (cmd_Args c),
           w\<lparr>started := started w @ [(cmd_Path c, cmd_Args c)]\<rparr>))"

section \<open>\<open>getLanguageVersion\<close>\<close>

text \<open>
  The three errors \<open>getLanguageVersion\<close> returns, one per \<open>return "", "", ...\<close>:
  \<open>fmt.Errorf("unsupported language: %s", language)\<close>,
  \<open>fmt.Errorf("not found in PATH")\<close> and the error of \<open>cmd.Run()\<close> as it is.
  \<open>Error\<close> is the message of each.
\<close>

datatype error = UnsupportedLanguage string | NotFound | ExecutionFailed string


text \<open>Lines 59 to 72: the \<open>switch\<close> that builds the command, \<open>None\<close> for \<open>default\<close>.\<close>

definition select_command :: "world \<Rightarrow> string \<Rightarrow> Cmd option" where
  "select_command w language =
     (if language = ''Python'' then Some (Command w ''python3'' [''--version''])
      else if language = ''JavaScript'' then Some (Command w ''node'' [''--version''])
      else if language = ''Go'' then Some (Command w ''go'' [''version''])
      else if language = ''Rust'' then Some (Command w ''rustc'' [''--version''])
      else if language = ''Java'' then Some (Command w ''java'' [''--version''])
      else None)"

text \<open>Lines 86 to 96: the version string from the captured output.\<close>

definition process_version :: "string \<Rightarrow> string \<Rightarrow> string outcome" where
  "process_version language out =
     (let version = TrimSpace out in
      if language = ''Python'' then
        (let parts = Split version '' '' in
         if length parts \<ge> 2 then index parts 1 else Return version)
      else if language = ''JavaScript'' then Return (TrimPrefix version ''v'')
      else Return version)"

text \<open>
  The function returns Go's triple \<open>(version, path, err)\<close>, and the machine after the
  call. The parameter \<open>language\<close> is reassigned on line 57; \<open>language'\<close> is its
  new value.
\<close>

definition getLanguageVersion ::
    "world \<Rightarrow> string \<Rightarrow> (string \<times> string \<times> error option) outcome \<times> world" where
  "getLanguageVersion w language =
     (case index (Split language '' '') 0 of
        Panic p \<Rightarrow> (Panic p, w)
      | Blocked \<Rightarrow> (Blocked, w)
      | Return language' \<Rightarrow>
          (case select_command w language' of
             None \<Rightarrow> (Return ('''', '''', Some (UnsupportedLanguage language')), w)
           | Some cmd \<Rightarrow>
               (let (path, err) = LookPath w (cmd_Path cmd) in
                if err \<noteq> None then (Return ('''', '''', Some NotFound), w)
                else
                  (case Run w cmd of
                     (NeverExits, w') \<Rightarrow> (Blocked, w')
                   | (Exits out (Some e), w') \<Rightarrow>
                       (Return ('''', '''', Some (ExecutionFailed e)), w')
                   | (Exits out None, w') \<Rightarrow>
                       (case process_version language' out of
                          Panic p \<Rightarrow> (Panic p, w')
                        | Blocked \<Rightarrow> (Blocked, w')
                        | Return version \<Rightarrow> (Return (version, path, None), w'))))))"

section \<open>\<open>getAvailableVersions\<close> and \<open>getLanguageEditors\<close>\<close>

text \<open>The map literal of lines 103 to 132; a key that is absent reads as the nil slice.\<close>

definition versions :: "(string \<times> string list) list" where
  "versions =
     [(''Python'', [''3.12.1 (Latest)'', ''3.11.7 (LTS)'', ''3.10.13'', ''3.9.18'']),
      (''JavaScript'', [''20.11.0 (Latest)'', ''18.19.0 (LTS)'', ''16.20.2'', ''14.21.3'']),
      (''Go'', [''1.22.0 (Latest)'', ''1.21.6 (LTS)'', ''1.20.12'', ''1.19.13'']),
      (''Rust'', [''1.75.0 (Latest)'', ''1.74.1'', ''1.73.0'']),
      (''Java'', [''21.0.2 (Latest)'', ''17.0.10 (LTS)'', ''11.0.22''])]"

definition getAvailableVersions :: "string \<Rightarrow> string list outcome" where
  "getAvailableVersions language =
     (case index (Split language '' '') 0 of
        Panic p \<Rightarrow> Panic p
      | Blocked \<Rightarrow> Blocked
      | Return language' \<Rightarrow>
          Return (case map_of versions language' of None \<Rightarrow> [] | Some vs \<Rightarrow> vs))"

text \<open>\<open>huh.Option[string]\<close>, with \<open>huh.NewOption\<close> and its method \<open>Selected\<close>.\<close>

record huh_Option =
  Key :: string
  Value :: string
  selected :: bool

definition NewOption :: "string \<Rightarrow> string \<Rightarrow> huh_Option" where
  "NewOption key v = \<lparr>Key = key, Value = v, selected = False\<rparr>"

definition Selected :: "huh_Option \<Rightarrow> bool \<Rightarrow> huh_Option" where
  "Selected opt b = opt\<lparr>selected := b\<rparr>"

definition baseEditors :: "huh_Option list" where
  "baseEditors =
     [Selected (NewOption (''VS Code '' @ [CHR 0xF0, CHR 0x9F, CHR 0x92, CHR 0xBB]) ''VS Code'') True,
      NewOption (''Neovim '' @ [CHR 0xF0, CHR 0x9F, CHR 0x94, CHR 0xAE]) ''Neovim'',
      NewOption (''Sublime Text '' @ [CHR 0xE2, CHR 0x9C, CHR 0xA8]) ''Sublime Text'']"

definition getLanguageEditors :: "string \<Rightarrow> huh_Option list outcome" where
  "getLanguageEditors language =
     (case index (Split language '' '') 0 of
        Panic p \<Rightarrow> Panic p
      | Blocked \<Rightarrow> Blocked
      | Return language' \<Rightarrow>
          (if language' = ''Python'' then
             Return (baseEditors @
               [NewOption (''PyCharm '' @ [CHR 0xF0, CHR 0x9F, CHR 0x90, CHR 0x8D]) ''PyCharm''])
           else if language' = ''Go'' then
             Return (baseEditors @
               [NewOption (''GoLand '' @ [CHR 0xF0, CHR 0x9F, CHR 0x8E, CHR 0xAF]) ''GoLand''])
           else if language' = ''JavaScript'' then
             Return (baseEditors @
               [NewOption (''WebStorm '' @ [CHR 0xF0, CHR 0x9F, CHR 0x8C, CHR 0x90]) ''WebStorm''])
           else if language' = ''Java'' then
             Return (baseEditors @
               [NewOption (''IntelliJ IDEA '' @ [CHR 0xE2, CHR 0x98, CHR 0x95]) ''IntelliJ IDEA''])
           else Return baseEditors))"

section \<open>The session of \<open>main\<close>\<close>



text \<open>
  The lipgloss styles of lines 33 to 49 and the text a style renders: what
  \<open>style.Render(text)\<close> prints depends on the terminal, so it is kept as the pair
  of style and text.
\<close>

datatype style = highlight | subtle | headerStyle | errorStyle



section \<open>Notions of the specification\<close>

text \<open>
  The specification speaks of the normalized language name: the label with its
  decorative suffix, which a space separates from the name, stripped. In its words,
  that is the label up to its first space.
\<close>

definition normalize_label :: "string \<Rightarrow> string" where
  "normalize_label label = takeWhile (\<lambda>c. c \<noteq> CHR '' '') label"

text \<open>The fixed enumeration of supported languages (section 3 of the specification).\<close>

definition supported_languages :: "string list" where
  "supported_languages = [''Python'', ''JavaScript'', ''Go'', ''Rust'', ''Java'']"

text \<open>
  The version-check invocation of each supported language, as the table of section 4.1
  of the specification lists them: the executable and its arguments.
\<close>

definition version_check_command :: "string \<Rightarrow> (string \<times> string list) option" where
  "version_check_command name =
     map_of [(''Python'', (''python3'', [''--version''])),
             (''JavaScript'', (''node'', [''--version''])),
             (''Go'', (''go'', [''version''])),
             (''Rust'', (''rustc'', [''--version''])),
             (''Java'', (''java'', [''--version'']))] name"

text \<open>
  The whitespace-separated tokens of a string, in the specification's words: the
  maximal runs of bytes between space runes. \<open>cur\<close> is the token being read.
\<close>

function whitespace_tokens_from :: "string \<Rightarrow> string \<Rightarrow> string list" where
  "whitespace_tokens_from cur s =
     (if s = [] then (if cur = [] then [] else [cur])
      else
        (case leading_space s of
           Some p \<Rightarrow>
             (if cur = [] then [] else [cur]) @ whitespace_tokens_from [] (drop (length p) s)
         | None \<Rightarrow> whitespace_tokens_from (cur @ [hd s]) (tl s)))"
  by pat_completeness auto
termination
proof (relation "measure (\<lambda>(cur, s). length s)")
  fix cur s p
  assume "s \<noteq> []" and "leading_space s = Some p"
  then have "0 < length p \<and> length p \<le> length s"
    by (intro leading_space_length)
  then show "(([], drop (length p) s), (cur, s)) \<in> measure (\<lambda>(cur, s). length s)"
    by (cases p) auto
qed auto

declare whitespace_tokens_from.simps [simp del]

definition whitespace_tokens :: "string \<Rightarrow> string list" where
  "whitespace_tokens s = whitespace_tokens_from [] s"

text \<open>
  What claim C1 says of the version that a successful Python probe returns for the
  captured output \<open>out\<close>: the second whitespace-separated token of the trimmed output
  when there are at least two tokens, the trimmed output itself otherwise.
\<close>

definition second_token_or_raw :: "string \<Rightarrow> string \<Rightarrow> bool" where
  "second_token_or_raw out version \<longleftrightarrow>
     (let v = TrimSpace out; tokens = whitespace_tokens v in
      if 2 \<le> length tokens then version = tokens ! 1 else version = v)"

text \<open>
  Recency of a version label: the label starts with a dotted version number
  (\<open>3.12.1 (Latest)\<close> is \<open>[3, 12, 1]\<close>), and a label is more recent than another
  when its number is the greater one, component by component.
\<close>

definition digit_value :: "char \<Rightarrow> nat option" where
  "digit_value c =
     (let n = (of_char c :: nat) in if 48 \<le> n \<and> n \<le> 57 then Some (n - 48) else None)"

fun decimal :: "nat \<Rightarrow> string \<Rightarrow> nat option" where
  "decimal acc [] = Some acc"
| "decimal acc (c # cs) =
     (case digit_value c of None \<Rightarrow> None | Some d \<Rightarrow> decimal (10 * acc + d) cs)"

definition version_number :: "string \<Rightarrow> nat list option" where
  "version_number label =
     those (map (\<lambda>part. if part = [] then None else decimal 0 part)
                (Split (takeWhile (\<lambda>c. c \<noteq> CHR '' '') label) ''.''))"

fun newer :: "nat list \<Rightarrow> nat list \<Rightarrow> bool" where
  "newer (x # xs) (y # ys) \<longleftrightarrow> x > y \<or> (x = y \<and> newer xs ys)"
| "newer (x # xs) [] \<longleftrightarrow> True"
| "newer [] ys \<longleftrightarrow> False"

definition more_recent :: "string \<Rightarrow> string \<Rightarrow> bool" where
  "more_recent a b =
     (case (version_number a, version_number b) of
        (Some x, Some y) \<Rightarrow> newer x y
      | _ \<Rightarrow> False)"

definition strictly_descending_recency :: "string list \<Rightarrow> bool" where
  "strictly_descending_recency vs \<longleftrightarrow>
     list_all (\<lambda>v. version_number v \<noteq> None) vs \<and> sorted_wrt more_recent vs"

text \<open>
  Machines to run the model on. On \<open>machine_with exe path out\<close> the executable
  \<open>exe\<close> is installed at \<open>path\<close> and prints \<open>out\<close>; nothing else is installed.
  On \<open>bare_machine\<close> nothing is installed at all.
\<close>

definition machine_with :: "string \<Rightarrow> string \<Rightarrow> string \<Rightarrow> world" where
  "machine_with exe path out =
     \<lparr>LookPath_of = (\<lambda>file. if file = exe \<or> file = path then (path, None)
                              else ('''', Some ''executable file not found in $PATH'')),
      Run_of = (\<lambda>p args. if p = path then Exits out None
                           else Exits '''' (Some ''no such file or directory'')),
      started = []\<rparr>"

definition bare_machine :: world where
  "bare_machine =
     \<lparr>LookPath_of = (\<lambda>file. ('''', Some ''executable file not found in $PATH'')),
      Run_of = (\<lambda>p args. Exits '''' (Some ''no such file or directory'')),
      started = []\<rparr>"



section \<open>Splitting at spaces\<close>

lemma Index_space:
  "Index s '' '' =
     (if CHR '' '' \<in> set s then Some (length (takeWhile (\<lambda>c. c \<noteq> CHR '' '') s)) else None)"
  by (induction s) (auto simp: HasPrefix_def)

lemma Split_space:
  "Split s '' '' =
     takeWhile (\<lambda>c. c \<noteq> CHR '' '') s #
       (if CHR '' '' \<in> set s then Split (tl (dropWhile (\<lambda>c. c \<noteq> CHR '' '') s)) '' '' else [])"
proof (cases "CHR '' '' \<in> set s")
  case True
  then have "Index s '' '' = Some (length (takeWhile (\<lambda>c. c \<noteq> CHR '' '') s))"
    by (simp add: Index_space)
  moreover have "take (length (takeWhile P s)) s = takeWhile P s" for P :: "char \<Rightarrow> bool"
    by (induction s) auto
  moreover have "drop (length (takeWhile P s) + 1) s = tl (dropWhile P s)" for P :: "char \<Rightarrow> bool"
    by (induction s) auto
  ultimately show ?thesis
    using True by (simp add: Split.simps)
next
  case False
  then have "Index s '' '' = None"
    by (simp add: Index_space)
  moreover from False have "takeWhile (\<lambda>c. c \<noteq> CHR '' '') s = s"
    by (induction s) auto
  ultimately show ?thesis
    using False by (simp add: Split.simps del: takeWhile_eq_all_conv)
qed

lemma Split_not_Nil: "Split s (c # cs) \<noteq> []"
  by (subst Split.simps) (simp split: option.splits)

lemma index_Split_space_0: "index (Split s '' '') 0 = Return (normalize_label s)"
  by (subst Split_space) (simp add: index_def normalize_label_def)

lemma normalize_no_space: "CHR '' '' \<notin> set (normalize_label s)"
  unfolding normalize_label_def by (auto dest: set_takeWhileD)

lemma normalize_idem: "normalize_label (normalize_label s) = normalize_label s"
  unfolding normalize_label_def by (rule takeWhile_idem)


section \<open>No call panics\<close>

lemma process_version_returns: "\<exists>version. process_version language out = Return version"
  by (simp add: process_version_def index_def Let_def)

lemma process_version_not_Panic [simp]: "process_version language out \<noteq> Panic p"
  using process_version_returns [of language out] by auto

lemma process_version_not_Blocked [simp]: "process_version language out \<noteq> Blocked"
  using process_version_returns [of language out] by auto

lemma getLanguageVersion_not_Panic: "fst (getLanguageVersion w language) \<noteq> Panic p"
  unfolding getLanguageVersion_def index_Split_space_0
  by (auto simp: Let_def split: option.splits prod.splits run_result.splits outcome.splits)

lemma getLanguageVersion_Blocked:
  "fst (getLanguageVersion w language) = Blocked \<Longrightarrow> \<exists>path args. Run_of w path args = NeverExits"
  unfolding getLanguageVersion_def index_Split_space_0
  by (auto simp: Let_def Run_def
           split: option.splits prod.splits run_result.splits outcome.splits if_splits)

text \<open>
  Claim C10. Label normalization is total over all strings: for every input string, the
  empty string and strings that begin with a space included, \<open>strings.Split(s, " ")\<close>
  has at least one element, so that the access to index 0 cannot fail and yields the
  label up to its first space. Therefore \<open>getLanguageVersion\<close>,
  \<open>getAvailableVersions\<close> and \<open>getLanguageEditors\<close> are defined on every
  string: none of them panics, the two lookups always return, and the probe returns
  whenever the child process it waits for exits.
\<close>

theorem normalization_total:
  "1 \<le> length (Split language '' '')
   \<and> index (Split language '' '') 0 = Return (normalize_label language)
   \<and> (\<forall>p. fst (getLanguageVersion w language) \<noteq> Panic p)
   \<and> ((\<forall>path args. Run_of w path args \<noteq> NeverExits) \<longrightarrow>
        (\<exists>r. fst (getLanguageVersion w language) = Return r))
   \<and> (\<exists>vs. getAvailableVersions language = Return vs)
   \<and> (\<exists>es. getLanguageEditors language = Return es)"
proof -
  have "Split language '' '' \<noteq> []"
    by (rule Split_not_Nil)
  then have "1 \<le> length (Split language '' '')"
    by (cases "Split language '' ''") simp_all
  moreover have "(\<forall>path args. Run_of w path args \<noteq> NeverExits) \<longrightarrow>
        (\<exists>r. fst (getLanguageVersion w language) = Return r)"
    using getLanguageVersion_not_Panic [of w language] getLanguageVersion_Blocked [of w language]
    by (cases "fst (getLanguageVersion w language)") auto
  moreover have "\<exists>vs. getAvailableVersions language = Return vs"
    by (simp add: getAvailableVersions_def index_Split_space_0)
  moreover have "\<exists>es. getLanguageEditors language = Return es"
    by (simp add: getLanguageEditors_def index_Split_space_0)
  ultimately show ?thesis
    using getLanguageVersion_not_Panic [of w language] index_Split_space_0 [of language]
    by blast
qed

theorem normalization_total_witness:
  "(\<forall>path args. Run_of bare_machine path args \<noteq> NeverExits)
   \<and> (\<exists>r. fst (getLanguageVersion bare_machine '' Go'') = Return r)
   \<and> index (Split '' Go'' '' '') 0 = Return ''''
   \<and> index (Split '''' '' '') 0 = Return ''''"
  using normalization_total [of "'' Go''" bare_machine] normalization_total [of "''''" bare_machine]
  by (simp add: bare_machine_def normalize_label_def)

text \<open>
  Claim C8. Label normalization is idempotent: for every string \<open>x\<close>, with or without
  a decorative suffix, the step \<open>strings.Split(x, " ")[0]\<close> yields the label up to its
  first space, and the same step applied to that result yields it again.
\<close>

theorem normalization_idempotent:
  "index (Split x '' '') 0 = Return (normalize_label x)
   \<and> index (Split (normalize_label x) '' '') 0 = Return (normalize_label x)"
  by (simp add: index_Split_space_0 normalize_idem)

section \<open>The probe, by normalized name\<close>

lemma select_command_eq:
  "select_command w name =
     map_option (\<lambda>(exe, args). Command w exe args) (version_check_command name)"
  by (simp add: select_command_def version_check_command_def)



lemma getLanguageVersion_supported:
  assumes "version_check_command (normalize_label language) = Some (exe, args)"
  shows "getLanguageVersion w language =
           (let cmd = Command w exe args; (path, err) = LookPath w (cmd_Path cmd) in
            if err \<noteq> None then (Return ('''', '''', Some NotFound), w)
            else
              (case Run w cmd of
                 (NeverExits, w') \<Rightarrow> (Blocked, w')
               | (Exits out (Some e), w') \<Rightarrow> (Return ('''', '''', Some (ExecutionFailed e)), w')
               | (Exits out None, w') \<Rightarrow>
                   (case process_version (normalize_label language) out of
                      Panic p \<Rightarrow> (Panic p, w')
                    | Blocked \<Rightarrow> (Blocked, w')
                    | Return version \<Rightarrow> (Return (version, path, None), w'))))"
  using assms by (simp add: getLanguageVersion_def index_Split_space_0 select_command_eq Let_def)

lemma Command_unresolved:
  "LookPath w exe = ('''', Some e) \<Longrightarrow>
     Command w exe args = \<lparr>cmd_Path = exe, cmd_Args = exe # args, cmd_Err = Some e\<rparr>"
  by (simp add: Command_def)



text \<open>
  Claim C2. For every language label whose normalized name maps to one of the five
  version-check commands: if the executable cannot be resolved on the search path
  (\<open>exec.LookPath\<close> gives no path and an error for its name, or, more generally, the
  lookup of line 74 fails), then \<open>getLanguageVersion\<close> returns the error
  \<open>not found in PATH\<close> with an empty version and path, and the machine is as it was
  before the call: no child process has been started.
\<close>

theorem probe_not_found_spawns_nothing:
  assumes "version_check_command (normalize_label language) = Some (exe, args)"
  shows "(LookPath w exe = ('''', Some e) \<or>
          snd (LookPath w (cmd_Path (Command w exe args))) \<noteq> None) \<longrightarrow>
           getLanguageVersion w language = (Return ('''', '''', Some NotFound), w)
           \<and> started (snd (getLanguageVersion w language)) = started w"
proof
  assume "LookPath w exe = ('''', Some e) \<or>
          snd (LookPath w (cmd_Path (Command w exe args))) \<noteq> None"
  then have "snd (LookPath w (cmd_Path (Command w exe args))) \<noteq> None"
    by (auto simp: Command_unresolved)
  then obtain path e' where "LookPath w (cmd_Path (Command w exe args)) = (path, Some e')"
    by (cases "LookPath w (cmd_Path (Command w exe args))") auto
  then have "getLanguageVersion w language = (Return ('''', '''', Some NotFound), w)"
    by (simp add: getLanguageVersion_supported [OF assms] Let_def)
  then show "getLanguageVersion w language = (Return ('''', '''', Some NotFound), w)
           \<and> started (snd (getLanguageVersion w language)) = started w"
    by simp
qed

theorem probe_not_found_spawns_nothing_witness:
  "version_check_command (normalize_label (''Go '' @ [CHR 0xF0, CHR 0x9F, CHR 0x9A, CHR 0x80])) =
     Some (''go'', [''version''])
   \<and> LookPath (machine_with ''python3'' ''/usr/bin/python3'' ''Python 3.11.2'') ''go'' =
       ('''', Some ''executable file not found in $PATH'')
   \<and> getLanguageVersion (machine_with ''python3'' ''/usr/bin/python3'' ''Python 3.11.2'')
         (''Go '' @ [CHR 0xF0, CHR 0x9F, CHR 0x9A, CHR 0x80]) =
       (Return ('''', '''', Some NotFound),
        machine_with ''python3'' ''/usr/bin/python3'' ''Python 3.11.2'')
   \<and> started (snd (getLanguageVersion
         (machine_with ''python3'' ''/usr/bin/python3'' ''Python 3.11.2'')
         (''Go '' @ [CHR 0xF0, CHR 0x9F, CHR 0x9A, CHR 0x80]))) = []"
  using probe_not_found_spawns_nothing
          [of "''Go '' @ [CHR 0xF0, CHR 0x9F, CHR 0x9A, CHR 0x80]" "''go''" "[''version'']"
              "machine_with ''python3'' ''/usr/bin/python3'' ''Python 3.11.2''"
              "''executable file not found in $PATH''"]
  by (simp add: normalize_label_def version_check_command_def LookPath_def machine_with_def)

section \<open>The catalog, by normalized name\<close>

lemma getAvailableVersions_eq:
  "getAvailableVersions language =
     Return (case map_of versions (normalize_label language) of None \<Rightarrow> [] | Some vs \<Rightarrow> vs)"
  by (simp add: getAvailableVersions_def index_Split_space_0)

lemma getAvailableVersions_empty_iff:
  "getAvailableVersions language = Return [] \<longleftrightarrow>
     normalize_label language \<notin> set supported_languages"
  by (simp add: getAvailableVersions_eq versions_def supported_languages_def)




section \<open>The version catalog\<close>

lemma version_number_Python:
  "map version_number [''3.12.1 (Latest)'', ''3.11.7 (LTS)'', ''3.10.13'', ''3.9.18''] =
     [Some [3, 12, 1], Some [3, 11, 7], Some [3, 10, 13], Some [3, 9, 18]]"
  by code_simp

lemma version_number_JavaScript:
  "map version_number [''20.11.0 (Latest)'', ''18.19.0 (LTS)'', ''16.20.2'', ''14.21.3''] =
     [Some [20, 11, 0], Some [18, 19, 0], Some [16, 20, 2], Some [14, 21, 3]]"
  by code_simp

lemma version_number_Go:
  "map version_number [''1.22.0 (Latest)'', ''1.21.6 (LTS)'', ''1.20.12'', ''1.19.13''] =
     [Some [1, 22, 0], Some [1, 21, 6], Some [1, 20, 12], Some [1, 19, 13]]"
  by code_simp

lemma version_number_Rust:
  "map version_number [''1.75.0 (Latest)'', ''1.74.1'', ''1.73.0''] =
     [Some [1, 75, 0], Some [1, 74, 1], Some [1, 73, 0]]"
  by code_simp

lemma version_number_Java:
  "map version_number [''21.0.2 (Latest)'', ''17.0.10 (LTS)'', ''11.0.22''] =
     [Some [21, 0, 2], Some [17, 0, 10], Some [11, 0, 22]]"
  by code_simp

lemma versions_descending:
  "strictly_descending_recency [''3.12.1 (Latest)'', ''3.11.7 (LTS)'', ''3.10.13'', ''3.9.18'']"
  "strictly_descending_recency [''20.11.0 (Latest)'', ''18.19.0 (LTS)'', ''16.20.2'', ''14.21.3'']"
  "strictly_descending_recency [''1.22.0 (Latest)'', ''1.21.6 (LTS)'', ''1.20.12'', ''1.19.13'']"
  "strictly_descending_recency [''1.75.0 (Latest)'', ''1.74.1'', ''1.73.0'']"
  "strictly_descending_recency [''21.0.2 (Latest)'', ''17.0.10 (LTS)'', ''11.0.22'']"
  using version_number_Python version_number_JavaScript version_number_Go
        version_number_Rust version_number_Java
  by (simp_all add: strictly_descending_recency_def more_recent_def)

text \<open>
  Claim C4. For each of the five supported languages (Python, JavaScript, Go, Rust,
  Java), \<open>getAvailableVersions\<close> returns a sequence of version labels that is not
  empty, is in strictly descending order of recency (each label's version number is
  greater than that of every later label) and has no duplicate; for every other
  language it returns the empty sequence, not an error.
\<close>

theorem available_versions_ordered:
  "(normalize_label language \<in> set supported_languages \<longrightarrow>
      (\<exists>vs. getAvailableVersions language = Return vs
            \<and> vs \<noteq> [] \<and> strictly_descending_recency vs \<and> distinct vs))
   \<and> (normalize_label language \<notin> set supported_languages \<longrightarrow>
        getAvailableVersions language = Return [])"
proof (intro conjI impI)
  assume "normalize_label language \<in> set supported_languages"
  then consider "normalize_label language = ''Python''"
    | "normalize_label language = ''JavaScript''"
    | "normalize_label language = ''Go''"
    | "normalize_label language = ''Rust''"
    | "normalize_label language = ''Java''"
    by (auto simp: supported_languages_def)
  then show "\<exists>vs. getAvailableVersions language = Return vs
            \<and> vs \<noteq> [] \<and> strictly_descending_recency vs \<and> distinct vs"
    by cases (simp_all add: getAvailableVersions_eq versions_def versions_descending)
next
  assume "normalize_label language \<notin> set supported_languages"
  then show "getAvailableVersions language = Return []"
    by (simp add: getAvailableVersions_empty_iff)
qed

theorem available_versions_ordered_witness:
  "normalize_label (''Python '' @ [CHR 0xF0, CHR 0x9F, CHR 0x90, CHR 0x8D]) \<in> set supported_languages
   \<and> getAvailableVersions (''Python '' @ [CHR 0xF0, CHR 0x9F, CHR 0x90, CHR 0x8D]) =
       Return [''3.12.1 (Latest)'', ''3.11.7 (LTS)'', ''3.10.13'', ''3.9.18'']
   \<and> strictly_descending_recency [''3.12.1 (Latest)'', ''3.11.7 (LTS)'', ''3.10.13'', ''3.9.18'']
   \<and> normalize_label ''Ruby'' \<notin> set supported_languages
   \<and> getAvailableVersions ''Ruby'' = Return []"
  using available_versions_ordered [of "''Python '' @ [CHR 0xF0, CHR 0x9F, CHR 0x90, CHR 0x8D]"]
        available_versions_ordered [of "''Ruby''"]
  by (auto simp: normalize_label_def supported_languages_def getAvailableVersions_eq versions_def)

section \<open>The editor catalog\<close>

lemma getLanguageEditors_eq:
  "getLanguageEditors language =
     (let name = normalize_label language in
      if name = ''Python'' then
        Return (baseEditors @
          [NewOption (''PyCharm '' @ [CHR 0xF0, CHR 0x9F, CHR 0x90, CHR 0x8D]) ''PyCharm''])
      else if name = ''Go'' then
        Return (baseEditors @
          [NewOption (''GoLand '' @ [CHR 0xF0, CHR 0x9F, CHR 0x8E, CHR 0xAF]) ''GoLand''])
      else if name = ''JavaScript'' then
        Return (baseEditors @
          [NewOption (''WebStorm '' @ [CHR 0xF0, CHR 0x9F, CHR 0x8C, CHR 0x90]) ''WebStorm''])
      else if name = ''Java'' then
        Return (baseEditors @
          [NewOption (''IntelliJ IDEA '' @ [CHR 0xE2, CHR 0x98, CHR 0x95]) ''IntelliJ IDEA''])
      else Return baseEditors)"
  by (simp add: getLanguageEditors_def index_Split_space_0 Let_def)

lemma baseEditors_fields:
  "map Value baseEditors = [''VS Code'', ''Neovim'', ''Sublime Text'']"
  "map selected baseEditors = [True, False, False]"
  by (simp_all add: baseEditors_def NewOption_def Selected_def)

text \<open>
  Claim C5. For every language label, \<open>getLanguageEditors\<close> returns the three base
  editors first, in the fixed order VS Code, Neovim, Sublime Text, with the first
  entry and no other pre-selected, followed by exactly one language-specific editor
  (PyCharm, GoLand, WebStorm, IntelliJ IDEA) when the normalized name is Python, Go,
  JavaScript or Java; for Rust and for every unrecognized language the result is the
  base list exactly.
\<close>

theorem editor_options_base_then_special:
  "map Value baseEditors = [''VS Code'', ''Neovim'', ''Sublime Text'']
   \<and> map selected baseEditors = [True, False, False]
   \<and> (normalize_label language \<in> set [''Python'', ''Go'', ''JavaScript'', ''Java''] \<longrightarrow>
        (\<exists>special. getLanguageEditors language = Return (baseEditors @ [special])
           \<and> \<not> selected special
           \<and> map_of [(''Python'', ''PyCharm''), (''Go'', ''GoLand''),
                      (''JavaScript'', ''WebStorm''), (''Java'', ''IntelliJ IDEA'')]
                (normalize_label language) = Some (Value special)))
   \<and> (normalize_label language \<notin> set [''Python'', ''Go'', ''JavaScript'', ''Java''] \<longrightarrow>
        getLanguageEditors language = Return baseEditors)"
  by (auto simp: baseEditors_fields getLanguageEditors_eq NewOption_def)

theorem editor_options_base_then_special_witness:
  "normalize_label (''Java '' @ [CHR 0xE2, CHR 0x98, CHR 0x95]) \<in>
     set [''Python'', ''Go'', ''JavaScript'', ''Java'']
   \<and> getLanguageEditors (''Java '' @ [CHR 0xE2, CHR 0x98, CHR 0x95]) =
       Return (baseEditors @
         [NewOption (''IntelliJ IDEA '' @ [CHR 0xE2, CHR 0x98, CHR 0x95]) ''IntelliJ IDEA''])
   \<and> normalize_label (''Rust '' @ [CHR 0xF0, CHR 0x9F, CHR 0xA6, CHR 0x80]) \<notin>
       set [''Python'', ''Go'', ''JavaScript'', ''Java'']
   \<and> getLanguageEditors (''Rust '' @ [CHR 0xF0, CHR 0x9F, CHR 0xA6, CHR 0x80]) = Return baseEditors
   \<and> normalize_label ''Ruby'' \<notin> set [''Python'', ''Go'', ''JavaScript'', ''Java'']
   \<and> getLanguageEditors ''Ruby'' = Return baseEditors"
  using editor_options_base_then_special [of "''Java '' @ [CHR 0xE2, CHR 0x98, CHR 0x95]"]
        editor_options_base_then_special [of "''Rust '' @ [CHR 0xF0, CHR 0x9F, CHR 0xA6, CHR 0x80]"]
        editor_options_base_then_special [of "''Ruby''"]
  by (simp add: normalize_label_def getLanguageEditors_eq)

section \<open>The version string\<close>

lemma TrimPrefix_v:
  "TrimPrefix s ''v'' = (case s of [] \<Rightarrow> [] | c # rest \<Rightarrow> if c = CHR ''v'' then rest else c # rest)"
  by (cases s) (auto simp: TrimPrefix_def HasPrefix_def)

lemma Split_space_Cons:
  "\<exists>rest. Split s '' '' = takeWhile (\<lambda>c. c \<noteq> CHR '' '') s # rest"
  by (subst Split_space) simp

lemma Split_space_second:
  assumes "CHR '' '' \<in> set s"
  shows "2 \<le> length (Split s '' '')"
    and "Split s '' '' ! 1 =
           takeWhile (\<lambda>c. c \<noteq> CHR '' '') (tl (dropWhile (\<lambda>c. c \<noteq> CHR '' '') s))"
proof -
  obtain rest where "Split (tl (dropWhile (\<lambda>c. c \<noteq> CHR '' '') s)) '' '' =
      takeWhile (\<lambda>c. c \<noteq> CHR '' '') (tl (dropWhile (\<lambda>c. c \<noteq> CHR '' '') s)) # rest"
    using Split_space_Cons by blast
  with assms have "Split s '' '' =
      takeWhile (\<lambda>c. c \<noteq> CHR '' '') s #
      takeWhile (\<lambda>c. c \<noteq> CHR '' '') (tl (dropWhile (\<lambda>c. c \<noteq> CHR '' '') s)) # rest"
    by (subst Split_space) simp
  then show "2 \<le> length (Split s '' '')"
    and "Split s '' '' ! 1 =
           takeWhile (\<lambda>c. c \<noteq> CHR '' '') (tl (dropWhile (\<lambda>c. c \<noteq> CHR '' '') s))"
    by simp_all
qed

lemma Split_space_single:
  assumes "CHR '' '' \<notin> set s"
  shows "Split s '' '' = [s]"
proof -
  from assms have "takeWhile (\<lambda>c. c \<noteq> CHR '' '') s = s"
    by auto
  with assms show ?thesis
    by (subst Split_space) simp
qed

lemma process_version_Python:
  "process_version ''Python'' out =
     Return (let v = TrimSpace out in
             if CHR '' '' \<in> set v
             then takeWhile (\<lambda>c. c \<noteq> CHR '' '') (tl (dropWhile (\<lambda>c. c \<noteq> CHR '' '') v))
             else v)"
proof (cases "CHR '' '' \<in> set (TrimSpace out)")
  case True
  then show ?thesis
    using Split_space_second [of "TrimSpace out"]
    by (simp add: process_version_def Let_def index_def)
next
  case False
  then show ?thesis
    by (simp add: process_version_def Let_def Split_space_single)
qed

lemma process_version_JavaScript:
  "process_version ''JavaScript'' out =
     Return (case TrimSpace out of
               [] \<Rightarrow> []
             | c # rest \<Rightarrow> if c = CHR ''v'' then rest else c # rest)"
  by (simp add: process_version_def TrimPrefix_v)

lemma getLanguageVersion_success:
  assumes "version_check_command (normalize_label language) = Some (exe, args)"
    and "LookPath w (cmd_Path (Command w exe args)) = (path, None)"
    and "Run w (Command w exe args) = (Exits out None, w')"
    and "process_version (normalize_label language) out = Return version"
  shows "getLanguageVersion w language = (Return (version, path, None), w')"
  using assms(2-4) by (simp add: getLanguageVersion_supported [OF assms(1)] Let_def)

lemmas evaluate_TrimSpace =
  TrimSpace_def TrimLeftSpace.simps TrimRightSpace.simps leading_space_def trailing_space_def
  space_runes_def HasPrefix_def HasSuffix_def

lemmas evaluate_probe =
  normalize_label_def version_check_command_def LookPath_def Command_def Run_def

text \<open>
  Claim C6. For every JavaScript probe whose command succeeds, the version returned is
  the captured output with surrounding whitespace trimmed and then exactly one leading
  \<open>v\<close> removed if there is one (\<open>v20.11.0\<close> gives \<open>20.11.0\<close>); without a leading
  \<open>v\<close> the trimmed output is returned unchanged (\<open>20.11.0\<close> gives \<open>20.11.0\<close>).
\<close>

theorem javascript_version_strips_one_v:
  assumes "normalize_label language = ''JavaScript''"
    and "LookPath w (cmd_Path (Command w ''node'' [''--version''])) = (path, None)"
    and "Run w (Command w ''node'' [''--version'']) = (Exits out None, w')"
  shows "getLanguageVersion w language =
           (Return (case TrimSpace out of
                      [] \<Rightarrow> []
                    | c # rest \<Rightarrow> if c = CHR ''v'' then rest else c # rest,
                    path, None), w')"
proof (rule getLanguageVersion_success [OF _ assms(2,3)])
  show "version_check_command (normalize_label language) = Some (''node'', [''--version''])"
    by (simp add: assms(1) version_check_command_def)
  show "process_version (normalize_label language) out =
          Return (case TrimSpace out of
                    [] \<Rightarrow> []
                  | c # rest \<Rightarrow> if c = CHR ''v'' then rest else c # rest)"
    by (simp add: assms(1) process_version_JavaScript)
qed

theorem javascript_version_strips_one_v_witness:
  "normalize_label (''JavaScript '' @ [CHR 0xF0, CHR 0x9F, CHR 0x92, CHR 0xAB]) = ''JavaScript''
   \<and> getLanguageVersion (machine_with ''node'' ''/usr/bin/node'' (''v20.11.0\<newline>''))
         (''JavaScript '' @ [CHR 0xF0, CHR 0x9F, CHR 0x92, CHR 0xAB]) =
       (Return (''20.11.0'', ''/usr/bin/node'', None),
        (machine_with ''node'' ''/usr/bin/node'' (''v20.11.0\<newline>''))
          \<lparr>started := [(''/usr/bin/node'', [''node'', ''--version''])]\<rparr>)
   \<and> fst (getLanguageVersion (machine_with ''node'' ''/usr/bin/node'' (''20.11.0\<newline>''))
         ''JavaScript'') =
       Return (''20.11.0'', ''/usr/bin/node'', None)
   \<and> fst (getLanguageVersion (machine_with ''node'' ''/usr/bin/node'' (''vv20\<newline>''))
         ''JavaScript'') =
       Return (''v20'', ''/usr/bin/node'', None)"
proof -
  let ?js = "''JavaScript '' @ [CHR 0xF0, CHR 0x9F, CHR 0x92, CHR 0xAB]"
  let ?path = "''/usr/bin/node''"
  have name: "normalize_label ?js = ''JavaScript''" "normalize_label ''JavaScript'' = ''JavaScript''"
    by (simp_all add: normalize_label_def)
  have found: "LookPath (machine_with ''node'' ?path out)
                 (cmd_Path (Command (machine_with ''node'' ?path out) ''node'' [''--version''])) =
               (?path, None)" for out
    by (simp add: evaluate_probe machine_with_def)
  have ran: "Run (machine_with ''node'' ?path out)
               (Command (machine_with ''node'' ?path out) ''node'' [''--version'']) =
             (Exits out None,
              (machine_with ''node'' ?path out)\<lparr>started := [(?path, [''node'', ''--version''])]\<rparr>)"
    for out
    by (simp add: evaluate_probe machine_with_def)
  have trimmed: "TrimSpace (''v20.11.0\<newline>'') = ''v20.11.0''"
    "TrimSpace (''20.11.0\<newline>'') = ''20.11.0''"
    "TrimSpace (''vv20\<newline>'') = ''vv20''"
    by (simp_all add: evaluate_TrimSpace)
  show ?thesis
    using javascript_version_strips_one_v [OF name(1) found ran, of "''v20.11.0\<newline>''"]
          javascript_version_strips_one_v [OF name(2) found ran, of "''20.11.0\<newline>''"]
          javascript_version_strips_one_v [OF name(2) found ran, of "''vv20\<newline>''"]
          name(1)
    by (simp add: trimmed [simplified])
qed

text \<open>
  Claim C1, as amended. For every Python probe whose command succeeds, the captured
  output is trimmed of surrounding whitespace and split at every single space
  character (U+0020); when the trimmed output contains a space, the version returned
  is the second piece, that is the text between its first and its second space (up to
  the end when there is no second space): \<open>Python 3.11.2\<close> gives \<open>3.11.2\<close>. When the
  trimmed output contains no space, it is returned unchanged: \<open>Python\<close> gives
  \<open>Python\<close>.
\<close>

theorem python_version_second_space_piece:
  assumes "normalize_label language = ''Python''"
    and "LookPath w (cmd_Path (Command w ''python3'' [''--version''])) = (path, None)"
    and "Run w (Command w ''python3'' [''--version'']) = (Exits out None, w')"
  shows "getLanguageVersion w language =
           (Return (let v = TrimSpace out in
                    if CHR '' '' \<in> set v
                    then takeWhile (\<lambda>c. c \<noteq> CHR '' '')
                           (tl (dropWhile (\<lambda>c. c \<noteq> CHR '' '') v))
                    else v,
                    path, None), w')"
proof (rule getLanguageVersion_success [OF _ assms(2,3)])
  show "version_check_command (normalize_label language) = Some (''python3'', [''--version''])"
    by (simp add: assms(1) version_check_command_def)
  show "process_version (normalize_label language) out =
          Return (let v = TrimSpace out in
                  if CHR '' '' \<in> set v
                  then takeWhile (\<lambda>c. c \<noteq> CHR '' '')
                         (tl (dropWhile (\<lambda>c. c \<noteq> CHR '' '') v))
                  else v)"
    by (simp only: assms(1) process_version_Python)
qed

theorem python_version_second_space_piece_witness:
  "normalize_label (''Python '' @ [CHR 0xF0, CHR 0x9F, CHR 0x90, CHR 0x8D]) = ''Python''
   \<and> getLanguageVersion
         (machine_with ''python3'' ''/usr/bin/python3'' (''Python 3.11.2\<newline>''))
         (''Python '' @ [CHR 0xF0, CHR 0x9F, CHR 0x90, CHR 0x8D]) =
       (Return (''3.11.2'', ''/usr/bin/python3'', None),
        (machine_with ''python3'' ''/usr/bin/python3'' (''Python 3.11.2\<newline>''))
          \<lparr>started := [(''/usr/bin/python3'', [''python3'', ''--version''])]\<rparr>)
   \<and> fst (getLanguageVersion (machine_with ''python3'' ''/usr/bin/python3'' ''Python'')
         (''Python '' @ [CHR 0xF0, CHR 0x9F, CHR 0x90, CHR 0x8D])) =
       Return (''Python'', ''/usr/bin/python3'', None)"
proof -
  let ?py = "''Python '' @ [CHR 0xF0, CHR 0x9F, CHR 0x90, CHR 0x8D]"
  let ?path = "''/usr/bin/python3''"
  have name: "normalize_label ?py = ''Python''"
    by (simp add: normalize_label_def)
  have found: "LookPath (machine_with ''python3'' ?path out)
                 (cmd_Path (Command (machine_with ''python3'' ?path out) ''python3'' [''--version''])) =
               (?path, None)" for out
    by (simp add: evaluate_probe machine_with_def)
  have ran: "Run (machine_with ''python3'' ?path out)
               (Command (machine_with ''python3'' ?path out) ''python3'' [''--version'']) =
             (Exits out None,
              (machine_with ''python3'' ?path out)
                \<lparr>started := [(?path, [''python3'', ''--version''])]\<rparr>)"
    for out
    by (simp add: evaluate_probe machine_with_def)
  have trimmed: "TrimSpace (''Python 3.11.2\<newline>'') = ''Python 3.11.2''"
    "TrimSpace ''Python'' = ''Python''"
    by (simp_all add: evaluate_TrimSpace)
  show ?thesis
    using python_version_second_space_piece [OF name found ran, of "''Python 3.11.2\<newline>''"]
          python_version_second_space_piece [OF name found ran, of "''Python''"]
          name
    by (simp add: trimmed [simplified])
qed

text \<open>
  Claim C1 as it is stated fails. With two spaces between the tokens the trimmed output
  \<open>Python  3.11.2\<close> has the two whitespace-separated tokens \<open>Python\<close> and
  \<open>3.11.2\<close>, and the version returned is the empty string, not the second token;
  with a tab between them the tokens are the same two, and the version returned is
  the whole trimmed output.
\<close>

theorem python_version_counterexample:
  "fst (getLanguageVersion
         (machine_with ''python3'' ''/usr/bin/python3'' ''Python  3.11.2\<newline>'')
         (''Python '' @ [CHR 0xF0, CHR 0x9F, CHR 0x90, CHR 0x8D])) =
     Return ('''', ''/usr/bin/python3'', None)
   \<and> whitespace_tokens (TrimSpace ''Python  3.11.2\<newline>'') = [''Python'', ''3.11.2'']
   \<and> \<not> second_token_or_raw ''Python  3.11.2\<newline>'' ''''
   \<and> fst (getLanguageVersion
         (machine_with ''python3'' ''/usr/bin/python3''
            (''Python'' @ [CHR 0x09] @ ''3.11.2\<newline>''))
         (''Python '' @ [CHR 0xF0, CHR 0x9F, CHR 0x90, CHR 0x8D])) =
       Return (''Python'' @ [CHR 0x09] @ ''3.11.2'', ''/usr/bin/python3'', None)
   \<and> whitespace_tokens (TrimSpace (''Python'' @ [CHR 0x09] @ ''3.11.2\<newline>'')) =
       [''Python'', ''3.11.2'']
   \<and> \<not> second_token_or_raw (''Python'' @ [CHR 0x09] @ ''3.11.2\<newline>'')
           (''Python'' @ [CHR 0x09] @ ''3.11.2'')"
proof -
  have trimmed: "TrimSpace ''Python  3.11.2\<newline>'' = ''Python  3.11.2''"
    "TrimSpace (''Python'' @ [CHR 0x09] @ ''3.11.2\<newline>'') =
       ''Python'' @ [CHR 0x09] @ ''3.11.2''"
    by (simp_all add: evaluate_TrimSpace)
  have tokens: "whitespace_tokens ''Python  3.11.2'' = [''Python'', ''3.11.2'']"
    "whitespace_tokens (''Python'' @ [CHR 0x09] @ ''3.11.2'') = [''Python'', ''3.11.2'']"
    by (simp_all add: whitespace_tokens_def whitespace_tokens_from.simps leading_space_def
                      space_runes_def HasPrefix_def)
  have probe: "fst (getLanguageVersion (machine_with ''python3'' ''/usr/bin/python3'' out)
                 (''Python '' @ [CHR 0xF0, CHR 0x9F, CHR 0x90, CHR 0x8D])) =
               (case process_version ''Python'' out of
                  Return version \<Rightarrow> Return (version, ''/usr/bin/python3'', None)
                | Panic p \<Rightarrow> Panic p | Blocked \<Rightarrow> Blocked)" for out
    by (simp add: getLanguageVersion_def index_Split_space_0 select_command_def evaluate_probe
                  machine_with_def split: outcome.splits)
  show ?thesis
    by (simp add: probe [simplified] process_version_Python second_token_or_raw_def
                  trimmed [simplified] tokens [simplified])
qed

section \<open>The session after a probe\<close>



end
